theory Spec2Isabelle
  imports Complex_Main "HOL-Library.Multiset"
begin

section \<open>Python values held by a record\<close>

text \<open>
  A Python float is a finite number, a negative zero, an infinity or a NaN. Finite values
  are carried as reals (every double is one), so that Python's exact comparison of an
  \<open>int\<close> with a \<open>float\<close> is the comparison of the two numbers.
\<close>

datatype pyfloat = Finite real | NegZero | PosInf | NegInf | NaN

text \<open>
  The values a record read from the document store can hold: \<open>None\<close>, booleans, unbounded
  integers, floats, strings, lists and nested documents.
\<close>

datatype pyval =
    PNone
  | PBool bool
  | PInt int
  | PFloat pyfloat
  | PStr string
  | PList "pyval list"
  | PDict "(string \<times> pyval) list"

text \<open>A record is a \<open>dict\<close> with string keys.\<close>

type_synonym pyrecord = "string \<rightharpoonup> pyval"

datatype error = TypeError | ValueError | OverflowError

text \<open>\<open>d.get(k)\<close>: the value stored under \<open>k\<close>, or \<open>None\<close> when the key is missing.\<close>

definition dict_get :: "pyrecord \<Rightarrow> string \<Rightarrow> pyval" where
  "dict_get d k = (case d k of None \<Rightarrow> PNone | Some v \<Rightarrow> v)"

text \<open>Truth value of an object in a boolean context (\<open>if x\<close>, \<open>x and y\<close>).\<close>

fun float_truthy :: "pyfloat \<Rightarrow> bool" where
  "float_truthy (Finite x) = (x \<noteq> 0)"
| "float_truthy NegZero = False"
| "float_truthy PosInf = True"
| "float_truthy NegInf = True"
| "float_truthy NaN = True"

fun truthy :: "pyval \<Rightarrow> bool" where
  "truthy PNone = False"
| "truthy (PBool b) = b"
| "truthy (PInt i) = (i \<noteq> 0)"
| "truthy (PFloat f) = float_truthy f"
| "truthy (PStr s) = (s \<noteq> [])"
| "truthy (PList xs) = (xs \<noteq> [])"
| "truthy (PDict kvs) = (kvs \<noteq> [])"

text \<open>Lists and dicts are unhashable: looking one up in a \<open>set\<close> raises \<open>TypeError\<close>.\<close>

fun hashable :: "pyval \<Rightarrow> bool" where
  "hashable (PList xs) = False"
| "hashable (PDict kvs) = False"
| "hashable v = True"

text \<open>
  \<open>x in s\<close> for a set \<open>s\<close> of strings and a hashable \<open>x\<close>: only a string can be equal to
  a member.
\<close>

fun in_str_set :: "pyval \<Rightarrow> string set \<Rightarrow> bool" where
  "in_str_set (PStr s) S = (s \<in> S)"
| "in_str_set v S = False"

text \<open>\<open>x == s\<close> for a string \<open>s\<close>.\<close>

definition eq_str :: "pyval \<Rightarrow> string \<Rightarrow> bool" where
  "eq_str v s = (v = PStr s)"

text \<open>\<open>isinstance(x, (int, float))\<close>; \<open>bool\<close> is a subclass of \<open>int\<close>.\<close>

fun is_int_or_float :: "pyval \<Rightarrow> bool" where
  "is_int_or_float (PBool b) = True"
| "is_int_or_float (PInt i) = True"
| "is_int_or_float (PFloat f) = True"
| "is_int_or_float v = False"

text \<open>
  \<open>m <= x\<close> and \<open>x <= m\<close> for an integer \<open>m\<close> and a number \<open>x\<close>. \<open>True\<close> and \<open>False\<close>
  compare as 1 and 0; every comparison with a NaN is false.
\<close>

fun int_le_float :: "int \<Rightarrow> pyfloat \<Rightarrow> bool" where
  "int_le_float m (Finite x) = (real_of_int m \<le> x)"
| "int_le_float m NegZero = (m \<le> 0)"
| "int_le_float m PosInf = True"
| "int_le_float m NegInf = False"
| "int_le_float m NaN = False"

fun float_le_int :: "pyfloat \<Rightarrow> int \<Rightarrow> bool" where
  "float_le_int (Finite x) m = (x \<le> real_of_int m)"
| "float_le_int NegZero m = (0 \<le> m)"
| "float_le_int PosInf m = False"
| "float_le_int NegInf m = True"
| "float_le_int NaN m = False"

fun int_le_num :: "int \<Rightarrow> pyval \<Rightarrow> bool" where
  "int_le_num m (PBool b) = (m \<le> (if b then 1 else 0))"
| "int_le_num m (PInt i) = (m \<le> i)"
| "int_le_num m (PFloat f) = int_le_float m f"
| "int_le_num m v = False"

fun num_le_int :: "pyval \<Rightarrow> int \<Rightarrow> bool" where
  "num_le_int (PBool b) m = ((if b then 1 else 0) \<le> m)"
| "num_le_int (PInt i) m = (i \<le> m)"
| "num_le_int (PFloat f) m = float_le_int f m"
| "num_le_int v m = False"

section \<open>ranking_service: criteria and scores\<close>

record MatchCriteria =
  preferred_breeds :: "string set option"
  min_weeks :: "int option"
  max_weeks :: "int option"
  preferred_sex :: "string option"

record BreedScore =
  breed_match :: int
  age_match :: int
  sex_match :: int
  total_score :: int

definition BREED_WEIGHT :: int where "BREED_WEIGHT = 50"
definition AGE_WEIGHT :: int where "AGE_WEIGHT = 30"
definition SEX_WEIGHT :: int where "SEX_WEIGHT = 20"

text \<open>
  \<open>RankingAlgorithm._score_breed\<close>. \<open>breed and breed in criteria.preferred_breeds\<close>
  evaluates the membership test only for a truthy \<open>breed\<close>, and the membership test
  hashes it.
\<close>

definition score_breed :: "pyrecord \<Rightarrow> MatchCriteria \<Rightarrow> error + int" where
  "score_breed record criteria =
     (case preferred_breeds criteria of
        None \<Rightarrow> Inr 0
      | Some breeds \<Rightarrow>
          (let breed = dict_get record ''breed'' in
           if \<not> truthy breed then Inr 0
           else if \<not> hashable breed then Inl TypeError
           else if in_str_set breed breeds then Inr BREED_WEIGHT
           else Inr 0))"

text \<open>\<open>RankingAlgorithm._score_age\<close>.\<close>

definition score_age :: "pyrecord \<Rightarrow> MatchCriteria \<Rightarrow> int" where
  "score_age record criteria =
     (case (min_weeks criteria, max_weeks criteria) of
        (Some lo, Some hi) \<Rightarrow>
          (let age = dict_get record ''age_upon_outcome_in_weeks'' in
           if \<not> is_int_or_float age then 0
           else if int_le_num lo age \<and> num_le_int age hi then AGE_WEIGHT
           else 0)
      | _ \<Rightarrow> 0)"

text \<open>\<open>RankingAlgorithm._score_sex\<close>.\<close>

definition score_sex :: "pyrecord \<Rightarrow> MatchCriteria \<Rightarrow> int" where
  "score_sex record criteria =
     (case preferred_sex criteria of
        None \<Rightarrow> 0
      | Some wanted \<Rightarrow>
          (let sex = dict_get record ''sex_upon_outcome'' in
           if truthy sex \<and> eq_str sex wanted then SEX_WEIGHT else 0))"

text \<open>
  \<open>RankingAlgorithm.score_dog\<close>: the three components in the source's order, so that an
  exception of the breed test leaves before the others run.
\<close>

definition score_dog :: "pyrecord \<Rightarrow> MatchCriteria \<Rightarrow> error + BreedScore" where
  "score_dog record criteria =
     (case score_breed record criteria of
        Inl e \<Rightarrow> Inl e
      | Inr breed_score \<Rightarrow>
          (let age_score = score_age record criteria;
               sex_score = score_sex record criteria;
               total = breed_score + age_score + sex_score
           in Inr \<lparr>breed_match = breed_score, age_match = age_score,
                    sex_match = sex_score, total_score = total\<rparr>))"

text \<open>\<open>criteria_for_filter\<close>: three named categories, and the empty criteria for anything else.\<close>

definition criteria_for_filter :: "string \<Rightarrow> MatchCriteria" where
  "criteria_for_filter filter_type =
     (if filter_type = ''water'' then
        \<lparr>preferred_breeds = Some {''Labrador Retriever Mix'', ''Chesapeake Bay Retriever'',
                                   ''Newfoundland''},
         min_weeks = Some 26, max_weeks = Some 156,
         preferred_sex = Some ''Intact Female''\<rparr>
      else if filter_type = ''mountain'' then
        \<lparr>preferred_breeds = Some {''German Shepherd'', ''Alaskan Malamute'',
                                   ''Old English Sheepdog'', ''Siberian Husky'', ''Rottweiler''},
         min_weeks = Some 26, max_weeks = Some 156,
         preferred_sex = Some ''Intact Male''\<rparr>
      else if filter_type = ''disaster'' then
        \<lparr>preferred_breeds = Some {''Doberman Pinscher'', ''German Shepherd'',
                                   ''Golden Retriever'', ''Bloodhound'', ''Rottweiler''},
         min_weeks = Some 20, max_weeks = Some 300,
         preferred_sex = Some ''Intact Male''\<rparr>
      else
        \<lparr>preferred_breeds = None, min_weeks = None, max_weeks = None,
         preferred_sex = None\<rparr>)"

section \<open>ranking_service: ranking a page of records\<close>

text \<open>
  The scored copy of a record: \<open>dict(record)\<close> with \<open>match_score\<close> and
  \<open>score_breakdown\<close> assigned. The input map itself is not changed.
\<close>

definition scored_record :: "pyrecord \<Rightarrow> BreedScore \<Rightarrow> pyrecord" where
  "scored_record record score =
     (record(''match_score'' \<mapsto> PInt (total_score score)))
       (''score_breakdown'' \<mapsto>
          PDict [(''breed_match'', PInt (breed_match score)),
                 (''age_match'', PInt (age_match score)),
                 (''sex_match'', PInt (sex_match score))])"

text \<open>
  The scoring loop of \<open>rank_results\<close>: \<open>scored_records\<close> is the accumulator, each row
  appends one pair, and an exception of \<open>score_dog\<close> ends the loop.
\<close>

fun score_rows ::
  "MatchCriteria \<Rightarrow> (int \<times> pyrecord) list \<Rightarrow> pyrecord list \<Rightarrow> error + (int \<times> pyrecord) list"
where
  "score_rows criteria scored_records [] = Inr scored_records"
| "score_rows criteria scored_records (record # rows) =
     (case score_dog record criteria of
        Inl e \<Rightarrow> Inl e
      | Inr score \<Rightarrow>
          score_rows criteria
            (scored_records @ [(total_score score, scored_record record score)]) rows)"

text \<open>
  \<open>list.sort(key=..., reverse=...)\<close>. CPython's sort is stable; with \<open>reverse=True\<close> it
  reverses the list, sorts it stably in ascending order of the key, and reverses the
  result, which keeps equal keys in their original order.
\<close>

definition list_sort :: "('a \<Rightarrow> 'k::linorder) \<Rightarrow> bool \<Rightarrow> 'a list \<Rightarrow> 'a list" where
  "list_sort key reverse xs =
     (if reverse then rev (sort_key key (rev xs)) else sort_key key xs)"

definition rank_results :: "pyrecord list \<Rightarrow> MatchCriteria \<Rightarrow> error + pyrecord list" where
  "rank_results rows criteria =
     (case score_rows criteria [] rows of
        Inl e \<Rightarrow> Inl e
      | Inr scored_records \<Rightarrow> Inr (map snd (list_sort fst True scored_records)))"

text \<open>The \<open>match_score\<close> a ranked record carries, when it is an integer.\<close>

definition match_score :: "pyrecord \<Rightarrow> int option" where
  "match_score record = (case record ''match_score'' of Some (PInt n) \<Rightarrow> Some n | _ \<Rightarrow> None)"

section \<open>query_service\<close>

definition ALLOWED_FILTERS :: "string set" where
  "ALLOWED_FILTERS = {''all'', ''water'', ''mountain'', ''disaster''}"

definition validate_filter_type :: "string \<Rightarrow> error + string" where
  "validate_filter_type filter_type =
     (if filter_type \<notin> ALLOWED_FILTERS then Inl ValueError else Inr filter_type)"

text \<open>\<open>build_rescue_query\<close>: the query document, as the nested dicts and lists the source builds.\<close>

definition build_rescue_query :: "string \<Rightarrow> error + pyval" where
  "build_rescue_query filter_type =
     (case validate_filter_type filter_type of
        Inl e \<Rightarrow> Inl e
      | Inr _ \<Rightarrow>
          if filter_type = ''water'' then
            Inr (PDict [(''$and'', PList [
              PDict [(''breed'', PDict [(''$in'', PList [PStr ''Labrador Retriever Mix'',
                 PStr ''Chesapeake Bay Retriever'', PStr ''Newfoundland''])])],
              PDict [(''sex_upon_outcome'', PStr ''Intact Female'')],
              PDict [(''age_upon_outcome_in_weeks'',
                 PDict [(''$gte'', PInt 26), (''$lte'', PInt 156)])]])])
          else if filter_type = ''mountain'' then
            Inr (PDict [(''$and'', PList [
              PDict [(''breed'', PDict [(''$in'', PList [PStr ''German Shepherd'',
                 PStr ''Alaskan Malamute'', PStr ''Old English Sheepdog'',
                 PStr ''Siberian Husky'', PStr ''Rottweiler''])])],
              PDict [(''sex_upon_outcome'', PStr ''Intact Male'')],
              PDict [(''age_upon_outcome_in_weeks'',
                 PDict [(''$gte'', PInt 26), (''$lte'', PInt 156)])]])])
          else if filter_type = ''disaster'' then
            Inr (PDict [(''$and'', PList [
              PDict [(''breed'', PDict [(''$in'', PList [PStr ''Doberman Pinscher'',
                 PStr ''German Shepherd'', PStr ''Golden Retriever'', PStr ''Bloodhound'',
                 PStr ''Rottweiler''])])],
              PDict [(''sex_upon_outcome'', PStr ''Intact Male'')],
              PDict [(''age_upon_outcome_in_weeks'',
                 PDict [(''$gte'', PInt 20), (''$lte'', PInt 300)])]])])
          else Inr (PDict []))"

text \<open>
  The predicate of section 4.1 of the specification, written as a query document: the
  conjunction of \<open>breed \<in> breeds\<close>, \<open>sex = sex\<close> and \<open>lo \<le> age \<le> hi\<close>.
\<close>

definition conjunction_query :: "string list \<Rightarrow> string \<Rightarrow> int \<Rightarrow> int \<Rightarrow> pyval" where
  "conjunction_query breeds sex lo hi =
     PDict [(''$and'', PList [
       PDict [(''breed'', PDict [(''$in'', PList (map PStr breeds))])],
       PDict [(''sex_upon_outcome'', PStr sex)],
       PDict [(''age_upon_outcome_in_weeks'', PDict [(''$gte'', PInt lo), (''$lte'', PInt hi)])]])]"

text \<open>
  What the query documents built here select, on records with scalar fields: the empty
  document selects every record; \<open>$and\<close> selects the records that all its clauses select;
  a clause constrains one field by membership in a list (\<open>$in\<close>), by equality with a
  string, or by an inclusive numeric range (\<open>$gte\<close> with \<open>$lte\<close>). In the store a boolean
  is not a number.
\<close>

fun store_number :: "pyval \<Rightarrow> bool" where
  "store_number (PInt i) = True"
| "store_number (PFloat f) = True"
| "store_number v = False"

definition cond_holds :: "pyval \<Rightarrow> pyval \<Rightarrow> bool" where
  "cond_holds c v =
     (case c of
        PStr s \<Rightarrow> v = PStr s
      | PDict [(op, PList xs)] \<Rightarrow> op = ''$in'' \<and> v \<in> set xs
      | PDict [(op1, PInt lo), (op2, PInt hi)] \<Rightarrow>
          op1 = ''$gte'' \<and> op2 = ''$lte'' \<and> store_number v \<and> int_le_num lo v \<and> num_le_int v hi
      | _ \<Rightarrow> False)"

definition clause_matches :: "pyval \<Rightarrow> pyrecord \<Rightarrow> bool" where
  "clause_matches clause record =
     (case clause of
        PDict [(field, c)] \<Rightarrow>
          (case record field of None \<Rightarrow> False | Some v \<Rightarrow> cond_holds c v)
      | _ \<Rightarrow> False)"

definition query_matches :: "pyval \<Rightarrow> pyrecord \<Rightarrow> bool" where
  "query_matches query record =
     (case query of
        PDict [] \<Rightarrow> True
      | PDict [(op, PList clauses)] \<Rightarrow>
          op = ''$and'' \<and> list_all (\<lambda>c. clause_matches c record) clauses
      | _ \<Rightarrow> False)"

section \<open>result_service\<close>

definition REQUIRED_FIELDS :: "string list" where
  "REQUIRED_FIELDS = [''breed'', ''sex_upon_outcome'', ''age_upon_outcome_in_weeks'']"

definition OPTIONAL_FIELDS_WITH_DEFAULTS :: "(string \<times> pyval) list" where
  "OPTIONAL_FIELDS_WITH_DEFAULTS =
     [(''name'', PStr []), (''location_lat'', PNone), (''location_long'', PNone)]"

text \<open>\<open>d.setdefault(k, v)\<close>: stores \<open>v\<close> only when \<open>k\<close> is not a key of \<open>d\<close>.\<close>

definition setdefault :: "pyrecord \<Rightarrow> string \<Rightarrow> pyval \<Rightarrow> pyrecord" where
  "setdefault d k v = (case d k of None \<Rightarrow> d(k \<mapsto> v) | Some _ \<Rightarrow> d)"

text \<open>
  \<open>float(n)\<close> for an integer \<open>n\<close> rounds the magnitude to 53 significant bits, ties to
  even, and raises \<open>OverflowError\<close> when the rounded magnitude does not fit a double
  (it reaches \<open>2 ^ 1024\<close>).
\<close>

fun bit_length :: "nat \<Rightarrow> nat" where
  "bit_length n = (if n = 0 then 0 else Suc (bit_length (n div 2)))"

declare bit_length.simps [simp del]

definition round_half_even :: "nat \<Rightarrow> nat" where
  "round_half_even n =
     (let k = bit_length n in
      if k \<le> 53 then n
      else
        let shift = k - 53;
            q = n div 2 ^ shift;
            rest = n mod 2 ^ shift;
            half = 2 ^ (shift - 1);
            q' = (if half < rest \<or> (rest = half \<and> odd q) then q + 1 else q)
        in q' * 2 ^ shift)"

definition int_to_float :: "int \<Rightarrow> error + pyfloat" where
  "int_to_float i =
     (let m = round_half_even (nat \<bar>i\<bar>) in
      if 2 ^ 1024 \<le> m then Inl OverflowError
      else Inr (Finite (if i < 0 then - real m else real m)))"

text \<open>
  \<open>float(x)\<close>. The conversion of a string is the built-in parser, a parameter here:
  \<open>str_to_float s\<close> is the float the text denotes, or \<open>None\<close> where the built-in raises
  \<open>ValueError\<close>. \<open>None\<close>, lists and dicts raise \<open>TypeError\<close>.
\<close>

fun py_float :: "(string \<Rightarrow> pyfloat option) \<Rightarrow> pyval \<Rightarrow> error + pyfloat" where
  "py_float str_to_float PNone = Inl TypeError"
| "py_float str_to_float (PBool b) = Inr (Finite (if b then 1 else 0))"
| "py_float str_to_float (PInt i) = int_to_float i"
| "py_float str_to_float (PFloat f) = Inr f"
| "py_float str_to_float (PStr s) =
     (case str_to_float s of None \<Rightarrow> Inl ValueError | Some f \<Rightarrow> Inr f)"
| "py_float str_to_float (PList xs) = Inl TypeError"
| "py_float str_to_float (PDict kvs) = Inl TypeError"

text \<open>
  \<open>sanitize_record\<close>. The \<open>except\<close> clause catches \<open>TypeError\<close> and \<open>ValueError\<close>; any
  other exception of the conversion leaves the function.
\<close>

definition sanitize_record :: "(string \<Rightarrow> pyfloat option) \<Rightarrow> pyrecord \<Rightarrow> error + pyrecord" where
  "sanitize_record str_to_float r =
     (let out = r;
          out = out(''_id'' := None);
          out = fold (\<lambda>k d. setdefault d k PNone) REQUIRED_FIELDS out;
          out = fold (\<lambda>(k, default) d. setdefault d k default) OPTIONAL_FIELDS_WITH_DEFAULTS out;
          age = dict_get out ''age_upon_outcome_in_weeks''
      in if age = PNone then Inr (out(''age_upon_outcome_in_weeks'' \<mapsto> PNone))
         else
           (case py_float str_to_float age of
              Inr f \<Rightarrow> Inr (out(''age_upon_outcome_in_weeks'' \<mapsto> PFloat f))
            | Inl e \<Rightarrow>
                if e = TypeError \<or> e = ValueError
                then Inr (out(''age_upon_outcome_in_weeks'' \<mapsto> PNone))
                else Inl e))"

section \<open>Scoring\<close>


lemmas score_defs = score_dog_def score_breed_def score_age_def score_sex_def dict_get_def
  eq_str_def BREED_WEIGHT_def AGE_WEIGHT_def SEX_WEIGHT_def

lemma score_breed_cases:
  "score_breed r c = Inr 0 \<or> score_breed r c = Inr 50 \<or> score_breed r c = Inl TypeError"
  by (simp add: score_breed_def BREED_WEIGHT_def Let_def split: option.splits)

lemma score_age_cases: "score_age r c = 0 \<or> score_age r c = 30"
  by (simp add: score_age_def AGE_WEIGHT_def Let_def split: option.splits)

lemma score_sex_cases: "score_sex r c = 0 \<or> score_sex r c = 20"
  by (simp add: score_sex_def SEX_WEIGHT_def Let_def split: option.splits)

lemma score_breed_returns:
  "(\<exists>n. score_breed r c = Inr n) \<longleftrightarrow>
     (preferred_breeds c = None \<or> \<not> truthy (dict_get r ''breed'') \<or> hashable (dict_get r ''breed''))"
  by (auto simp add: score_breed_def Let_def split: option.splits)

text \<open>
  C1. Whenever \<open>score_dog\<close> returns a score, its total is the sum of the breed, age and sex
  components and is one of 0, 20, 30, 50, 70, 80, 100. It returns for every record and every
  criteria except where a breed set is given and the record's breed is a non-empty list or
  dict, which the membership test cannot hash.
\<close>

theorem score_dog_total:
  "(\<forall>s. score_dog r c = Inr s \<longrightarrow>
       total_score s = breed_match s + age_match s + sex_match s \<and>
       total_score s \<in> {0, 20, 30, 50, 70, 80, 100}) \<and>
   ((\<exists>s. score_dog r c = Inr s) \<longleftrightarrow>
       (preferred_breeds c = None \<or> \<not> truthy (dict_get r ''breed'') \<or>
        hashable (dict_get r ''breed'')))"
proof (intro conjI allI impI)
  fix s
  assume ret: "score_dog r c = Inr s"
  then obtain b where b: "score_breed r c = Inr b"
    and s: "s = \<lparr>breed_match = b, age_match = score_age r c, sex_match = score_sex r c,
                  total_score = b + score_age r c + score_sex r c\<rparr>"
    by (auto simp add: score_dog_def Let_def split: sum.splits)
  show "total_score s = breed_match s + age_match s + sex_match s"
    by (simp add: s)
  from b score_breed_cases [of r c] have "b = 0 \<or> b = 50" by auto
  with score_age_cases [of r c] score_sex_cases [of r c]
  show "total_score s \<in> {0, 20, 30, 50, 70, 80, 100}"
    by (auto simp add: s)
next
  show "(\<exists>s. score_dog r c = Inr s) \<longleftrightarrow>
       (preferred_breeds c = None \<or> \<not> truthy (dict_get r ''breed'') \<or>
        hashable (dict_get r ''breed''))"
    unfolding score_breed_returns [symmetric]
    by (auto simp add: score_dog_def Let_def split: sum.splits)
qed

theorem score_dog_total_witness:
  "score_dog [''breed'' \<mapsto> PStr ''Labrador Retriever Mix'',
              ''age_upon_outcome_in_weeks'' \<mapsto> PInt 52,
              ''sex_upon_outcome'' \<mapsto> PStr ''Intact Female'']
     (criteria_for_filter ''water'')
   = Inr \<lparr>breed_match = 50, age_match = 30, sex_match = 20, total_score = 100\<rparr> \<and>
   (100::int) = 50 + 30 + 20 \<and> (100::int) \<in> {0, 20, 30, 50, 70, 80, 100}"
  using score_dog_total [of "[''breed'' \<mapsto> PStr ''Labrador Retriever Mix'',
              ''age_upon_outcome_in_weeks'' \<mapsto> PInt 52,
              ''sex_upon_outcome'' \<mapsto> PStr ''Intact Female'']" "criteria_for_filter ''water''"]
  by (simp add: score_defs criteria_for_filter_def)







section \<open>Category validation and resolution\<close>

text \<open>
  C6. \<open>validate_filter_type\<close> raises (a \<open>ValueError\<close>) exactly when the value is not one of
  \<open>all\<close>, \<open>water\<close>, \<open>mountain\<close>, \<open>disaster\<close>; a valid value is returned unchanged; \<open>WATER\<close>
  and \<open> water\<close> are rejected.
\<close>

theorem validate_filter_type_iff:
  "(validate_filter_type v = Inl ValueError \<longleftrightarrow>
      v \<notin> {''all'', ''water'', ''mountain'', ''disaster''}) \<and>
   ((\<exists>e. validate_filter_type v = Inl e) \<longleftrightarrow>
      v \<notin> {''all'', ''water'', ''mountain'', ''disaster''}) \<and>
   (v \<in> {''all'', ''water'', ''mountain'', ''disaster''} \<longrightarrow> validate_filter_type v = Inr v) \<and>
   validate_filter_type ''WATER'' = Inl ValueError \<and>
   validate_filter_type '' water'' = Inl ValueError"
  by (simp add: validate_filter_type_def ALLOWED_FILTERS_def)

theorem validate_filter_type_iff_witness:
  "validate_filter_type ''water'' = Inr ''water'' \<and>
   validate_filter_type ''water '' = Inl ValueError"
  using validate_filter_type_iff [of "''water''"] validate_filter_type_iff [of "''water ''"]
  by simp

text \<open>
  C10. \<open>criteria_for_filter\<close> validates nothing: every string other than \<open>water\<close>,
  \<open>mountain\<close>, \<open>disaster\<close> gets the empty criteria, under which every record scores 0 on every
  component; in particular every string that \<open>validate_filter_type\<close> rejects does.
\<close>

theorem criteria_for_filter_unvalidated:
  "(filter_type \<notin> {''water'', ''mountain'', ''disaster''} \<longrightarrow>
      criteria_for_filter filter_type =
        \<lparr>preferred_breeds = None, min_weeks = None, max_weeks = None, preferred_sex = None\<rparr> \<and>
      (\<forall>r. score_dog r (criteria_for_filter filter_type) =
         Inr \<lparr>breed_match = 0, age_match = 0, sex_match = 0, total_score = 0\<rparr>)) \<and>
   (validate_filter_type filter_type = Inl ValueError \<longrightarrow>
      criteria_for_filter filter_type =
        \<lparr>preferred_breeds = None, min_weeks = None, max_weeks = None, preferred_sex = None\<rparr>)"
proof -
  have empty: "criteria_for_filter filter_type =
        \<lparr>preferred_breeds = None, min_weeks = None, max_weeks = None, preferred_sex = None\<rparr>"
    if "filter_type \<notin> {''water'', ''mountain'', ''disaster''}"
    using that by (simp add: criteria_for_filter_def)
  have zero: "score_dog r \<lparr>preferred_breeds = None, min_weeks = None, max_weeks = None,
        preferred_sex = None\<rparr> =
      Inr \<lparr>breed_match = 0, age_match = 0, sex_match = 0, total_score = 0\<rparr>" for r
    by (simp add: score_dog_def score_breed_def score_age_def score_sex_def)
  have reject: "filter_type \<notin> {''water'', ''mountain'', ''disaster''}"
    if "validate_filter_type filter_type = Inl ValueError"
    using that by (simp add: validate_filter_type_def ALLOWED_FILTERS_def split: if_splits)
  show ?thesis
    using empty zero reject by simp
qed

theorem criteria_for_filter_unvalidated_witness:
  "validate_filter_type ''WATER'' = Inl ValueError \<and>
   criteria_for_filter ''WATER'' =
     \<lparr>preferred_breeds = None, min_weeks = None, max_weeks = None, preferred_sex = None\<rparr> \<and>
   criteria_for_filter '' water'' =
     \<lparr>preferred_breeds = None, min_weeks = None, max_weeks = None, preferred_sex = None\<rparr> \<and>
   score_dog [''breed'' \<mapsto> PStr ''Newfoundland'', ''age_upon_outcome_in_weeks'' \<mapsto> PInt 52,
              ''sex_upon_outcome'' \<mapsto> PStr ''Intact Female''] (criteria_for_filter ''WATER'')
     = Inr \<lparr>breed_match = 0, age_match = 0, sex_match = 0, total_score = 0\<rparr>"
proof -
  have v: "validate_filter_type ''WATER'' = Inl ValueError"
    by (simp add: validate_filter_type_def ALLOWED_FILTERS_def)
  have n1: "''WATER'' \<notin> {''water'', ''mountain'', ''disaster''}" by simp
  have n2: "'' water'' \<notin> {''water'', ''mountain'', ''disaster''}" by simp
  note w = criteria_for_filter_unvalidated [of "''WATER''", THEN conjunct1, THEN mp, OF n1]
  note s = criteria_for_filter_unvalidated [of "'' water''", THEN conjunct1, THEN mp, OF n2]
  show ?thesis
    by (intro conjI v w [THEN conjunct1] s [THEN conjunct1] w [THEN conjunct2, THEN spec])
qed

section \<open>Category catalog: query and criteria\<close>

lemma query_matches_conjunction:
  "query_matches (conjunction_query breeds sex lo hi) r \<longleftrightarrow>
     (\<exists>b. r ''breed'' = Some (PStr b) \<and> b \<in> set breeds) \<and>
     r ''sex_upon_outcome'' = Some (PStr sex) \<and>
     (\<exists>v. r ''age_upon_outcome_in_weeks'' = Some v \<and> store_number v \<and>
          int_le_num lo v \<and> num_le_int v hi)"
  by (auto simp add: query_matches_def conjunction_query_def clause_matches_def cond_holds_def
      split: option.splits)

lemma query_matches_empty: "query_matches (PDict []) r"
  by (simp add: query_matches_def)

lemmas query_defs = build_rescue_query_def validate_filter_type_def ALLOWED_FILTERS_def
  conjunction_query_def

text \<open>
  C5. For \<open>water\<close>, \<open>mountain\<close> and \<open>disaster\<close> the query that \<open>build_rescue_query\<close> builds
  is the conjunction of breed in a list, sex equal to a label and age within inclusive
  bounds, and the breeds, the label and the bounds are those of the criteria that
  \<open>criteria_for_filter\<close> returns for the same category (the table of section 4.1). For
  \<open>all\<close> the query is the empty document, which selects every record, and the criteria has
  all four fields absent. The last conjunct says what a conjunction query selects.
\<close>

theorem build_rescue_query_matches_criteria:
  "(build_rescue_query ''water'' =
      Inr (conjunction_query [''Labrador Retriever Mix'', ''Chesapeake Bay Retriever'',
        ''Newfoundland''] ''Intact Female'' 26 156) \<and>
    criteria_for_filter ''water'' =
      \<lparr>preferred_breeds = Some (set [''Labrador Retriever Mix'', ''Chesapeake Bay Retriever'',
         ''Newfoundland'']),
       min_weeks = Some 26, max_weeks = Some 156, preferred_sex = Some ''Intact Female''\<rparr>) \<and>
   (build_rescue_query ''mountain'' =
      Inr (conjunction_query [''German Shepherd'', ''Alaskan Malamute'', ''Old English Sheepdog'',
        ''Siberian Husky'', ''Rottweiler''] ''Intact Male'' 26 156) \<and>
    criteria_for_filter ''mountain'' =
      \<lparr>preferred_breeds = Some (set [''German Shepherd'', ''Alaskan Malamute'',
         ''Old English Sheepdog'', ''Siberian Husky'', ''Rottweiler'']),
       min_weeks = Some 26, max_weeks = Some 156, preferred_sex = Some ''Intact Male''\<rparr>) \<and>
   (build_rescue_query ''disaster'' =
      Inr (conjunction_query [''Doberman Pinscher'', ''German Shepherd'', ''Golden Retriever'',
        ''Bloodhound'', ''Rottweiler''] ''Intact Male'' 20 300) \<and>
    criteria_for_filter ''disaster'' =
      \<lparr>preferred_breeds = Some (set [''Doberman Pinscher'', ''German Shepherd'',
         ''Golden Retriever'', ''Bloodhound'', ''Rottweiler'']),
       min_weeks = Some 20, max_weeks = Some 300, preferred_sex = Some ''Intact Male''\<rparr>) \<and>
   (build_rescue_query ''all'' = Inr (PDict []) \<and>
    criteria_for_filter ''all'' =
      \<lparr>preferred_breeds = None, min_weeks = None, max_weeks = None, preferred_sex = None\<rparr>) \<and>
   (\<forall>r. query_matches (PDict []) r) \<and>
   (\<forall>breeds sex lo hi r.
      query_matches (conjunction_query breeds sex lo hi) r \<longleftrightarrow>
        (\<exists>b. r ''breed'' = Some (PStr b) \<and> b \<in> set breeds) \<and>
        r ''sex_upon_outcome'' = Some (PStr sex) \<and>
        (\<exists>v. r ''age_upon_outcome_in_weeks'' = Some v \<and> store_number v \<and>
             int_le_num lo v \<and> num_le_int v hi))"
proof (intro conjI allI)
  show "build_rescue_query ''water'' =
      Inr (conjunction_query [''Labrador Retriever Mix'', ''Chesapeake Bay Retriever'',
        ''Newfoundland''] ''Intact Female'' 26 156)"
    by (simp add: query_defs)
  show "build_rescue_query ''mountain'' =
      Inr (conjunction_query [''German Shepherd'', ''Alaskan Malamute'', ''Old English Sheepdog'',
        ''Siberian Husky'', ''Rottweiler''] ''Intact Male'' 26 156)"
    by (simp add: query_defs)
  show "build_rescue_query ''disaster'' =
      Inr (conjunction_query [''Doberman Pinscher'', ''German Shepherd'', ''Golden Retriever'',
        ''Bloodhound'', ''Rottweiler''] ''Intact Male'' 20 300)"
    by (simp add: query_defs)
  show "build_rescue_query ''all'' = Inr (PDict [])"
    by (simp add: query_defs)
  show "criteria_for_filter ''water'' =
      \<lparr>preferred_breeds = Some (set [''Labrador Retriever Mix'', ''Chesapeake Bay Retriever'',
         ''Newfoundland'']),
       min_weeks = Some 26, max_weeks = Some 156, preferred_sex = Some ''Intact Female''\<rparr>"
    by (simp add: criteria_for_filter_def)
  show "criteria_for_filter ''mountain'' =
      \<lparr>preferred_breeds = Some (set [''German Shepherd'', ''Alaskan Malamute'',
         ''Old English Sheepdog'', ''Siberian Husky'', ''Rottweiler'']),
       min_weeks = Some 26, max_weeks = Some 156, preferred_sex = Some ''Intact Male''\<rparr>"
    by (simp add: criteria_for_filter_def)
  show "criteria_for_filter ''disaster'' =
      \<lparr>preferred_breeds = Some (set [''Doberman Pinscher'', ''German Shepherd'',
         ''Golden Retriever'', ''Bloodhound'', ''Rottweiler'']),
       min_weeks = Some 20, max_weeks = Some 300, preferred_sex = Some ''Intact Male''\<rparr>"
    by (simp add: criteria_for_filter_def)
  show "criteria_for_filter ''all'' =
      \<lparr>preferred_breeds = None, min_weeks = None, max_weeks = None, preferred_sex = None\<rparr>"
    by (simp add: criteria_for_filter_def)
  show "query_matches (PDict []) r" for r
    by (rule query_matches_empty)
  show "query_matches (conjunction_query breeds sex lo hi) r \<longleftrightarrow>
        (\<exists>b. r ''breed'' = Some (PStr b) \<and> b \<in> set breeds) \<and>
        r ''sex_upon_outcome'' = Some (PStr sex) \<and>
        (\<exists>v. r ''age_upon_outcome_in_weeks'' = Some v \<and> store_number v \<and>
             int_le_num lo v \<and> num_le_int v hi)" for breeds sex lo hi r
    by (rule query_matches_conjunction)
qed

theorem build_rescue_query_matches_criteria_witness:
  "query_matches
     (conjunction_query [''Labrador Retriever Mix'', ''Chesapeake Bay Retriever'', ''Newfoundland'']
        ''Intact Female'' 26 156)
     [''breed'' \<mapsto> PStr ''Newfoundland'', ''sex_upon_outcome'' \<mapsto> PStr ''Intact Female'',
      ''age_upon_outcome_in_weeks'' \<mapsto> PInt 26] \<and>
   \<not> query_matches
     (conjunction_query [''Labrador Retriever Mix'', ''Chesapeake Bay Retriever'', ''Newfoundland'']
        ''Intact Female'' 26 156)
     [''breed'' \<mapsto> PStr ''Newfoundland'', ''sex_upon_outcome'' \<mapsto> PStr ''Intact Female'',
      ''age_upon_outcome_in_weeks'' \<mapsto> PInt 157]"
proof -
  note sem = build_rescue_query_matches_criteria [THEN conjunct2, THEN conjunct2, THEN conjunct2,
      THEN conjunct2, THEN conjunct2, rule_format]
  show ?thesis
    unfolding sem by simp
qed

section \<open>Ranking\<close>

lemma score_rows_Inr:
  "score_rows c acc rows = Inr out \<Longrightarrow>
   \<exists>ss. list_all2 (\<lambda>r s. score_dog r c = Inr s) rows ss \<and>
        out = acc @ map (\<lambda>(r, s). (total_score s, scored_record r s)) (zip rows ss)"
proof (induction rows arbitrary: acc)
  case Nil
  then show ?case by simp
next
  case (Cons r rows)
  from Cons.prems obtain s where s: "score_dog r c = Inr s"
    and rest: "score_rows c (acc @ [(total_score s, scored_record r s)]) rows = Inr out"
    by (auto split: sum.splits)
  from Cons.IH [OF rest] obtain ss where
    ss: "list_all2 (\<lambda>r s. score_dog r c = Inr s) rows ss"
    and out: "out = (acc @ [(total_score s, scored_record r s)]) @
       map (\<lambda>(r, s). (total_score s, scored_record r s)) (zip rows ss)"
    by blast
  have "list_all2 (\<lambda>r s. score_dog r c = Inr s) (r # rows) (s # ss)"
    using s ss by simp
  moreover have "out = acc @ map (\<lambda>(r, s). (total_score s, scored_record r s))
      (zip (r # rows) (s # ss))"
    using out by simp
  ultimately show ?case by blast
qed

lemma score_rows_total:
  "list_all2 (\<lambda>r s. score_dog r c = Inr s) rows ss \<Longrightarrow>
   score_rows c acc rows =
     Inr (acc @ map (\<lambda>(r, s). (total_score s, scored_record r s)) (zip rows ss))"
proof (induction rows ss arbitrary: acc rule: list_all2_induct)
  case Nil
  then show ?case by simp
next
  case (Cons r rows s ss)
  then show ?case by simp
qed

lemma list_sort_reverse_sorted:
  "sorted_wrt (\<lambda>a b. b \<le> a) (map key (list_sort key True xs))"
proof -
  have "sorted (map key (sort_key key (rev xs)))" by (rule sorted_sort_key)
  then have "sorted_wrt (\<lambda>a b. b \<le> a) (rev (map key (sort_key key (rev xs))))"
    by (simp add: sorted_wrt_rev)
  then show ?thesis by (simp add: list_sort_def rev_map)
qed

lemma list_sort_reverse_stable:
  "filter (\<lambda>x. key x = k) (list_sort key True xs) = filter (\<lambda>x. key x = k) xs"
proof -
  have "filter (\<lambda>x. key x = k) (rev (sort_key key (rev xs))) =
      rev (filter (\<lambda>x. key x = k) (sort_key key (rev xs)))"
    by (simp add: rev_filter)
  also have "\<dots> = rev (filter (\<lambda>x. key x = k) (rev xs))"
    by (simp only: sort_key_stable)
  also have "\<dots> = filter (\<lambda>x. key x = k) xs"
    by (simp add: rev_filter)
  finally show ?thesis by (simp add: list_sort_def)
qed


lemma set_list_sort: "set (list_sort key reverse xs) = set xs"
  by (simp add: list_sort_def)

lemma match_score_scored_record: "match_score (scored_record r s) = Some (total_score s)"
  by (simp add: match_score_def scored_record_def)

lemma rank_results_Inr:
  assumes "rank_results rows c = Inr out"
  obtains ss where "list_all2 (\<lambda>r s. score_dog r c = Inr s) rows ss"
    and "out = map snd (list_sort fst True
           (map (\<lambda>(r, s). (total_score s, scored_record r s)) (zip rows ss)))"
proof -
  from assms obtain scored where sc: "score_rows c [] rows = Inr scored"
    and out: "out = map snd (list_sort fst True scored)"
    by (auto simp add: rank_results_def split: sum.splits)
  from score_rows_Inr [OF sc] obtain ss where
    "list_all2 (\<lambda>r s. score_dog r c = Inr s) rows ss"
    "scored = map (\<lambda>(r, s). (total_score s, scored_record r s)) (zip rows ss)"
    by auto
  with out that show thesis by blast
qed

lemma rank_results_returns:
  "(\<exists>out. rank_results rows c = Inr out) \<longleftrightarrow> (\<forall>r \<in> set rows. \<exists>s. score_dog r c = Inr s)"
proof
  assume "\<exists>out. rank_results rows c = Inr out"
  then obtain out where "rank_results rows c = Inr out" ..
  then obtain ss where "list_all2 (\<lambda>r s. score_dog r c = Inr s) rows ss"
    by (rule rank_results_Inr)
  then show "\<forall>r \<in> set rows. \<exists>s. score_dog r c = Inr s"
    by (auto simp add: list_all2_conv_all_nth in_set_conv_nth)
next
  assume "\<forall>r \<in> set rows. \<exists>s. score_dog r c = Inr s"
  then have "\<exists>ss. list_all2 (\<lambda>r s. score_dog r c = Inr s) rows ss"
  proof (induction rows)
    case Nil
    then show ?case by simp
  next
    case (Cons r rows)
    then obtain s ss where "score_dog r c = Inr s"
      "list_all2 (\<lambda>r s. score_dog r c = Inr s) rows ss" by auto
    then have "list_all2 (\<lambda>r s. score_dog r c = Inr s) (r # rows) (s # ss)" by simp
    then show ?case by blast
  qed
  then obtain ss where "list_all2 (\<lambda>r s. score_dog r c = Inr s) rows ss" ..
  from score_rows_total [OF this, of "[]"] show "\<exists>out. rank_results rows c = Inr out"
    by (simp add: rank_results_def)
qed

lemma pairs_keyed:
  "\<forall>p \<in> set (map (\<lambda>(r, s). (total_score s, scored_record r s)) (zip rows ss)).
     match_score (snd p) = Some (fst p)"
  by (auto simp add: match_score_scored_record)

lemma filter_map_snd_keyed:
  "\<forall>p \<in> set ps. match_score (snd p) = Some (fst p) \<Longrightarrow>
   filter (\<lambda>r. match_score r = Some k) (map snd ps) = map snd (filter (\<lambda>p. fst p = k) ps)"
  by (induction ps) auto

lemma map_match_score_keyed:
  "\<forall>p \<in> set ps. match_score (snd p) = Some (fst p) \<Longrightarrow>
   map match_score (map snd ps) = map Some (map fst ps)"
  by (induction ps) auto

text \<open>
  C3. Whenever \<open>rank_results\<close> returns, the \<open>match_score\<close> values of its output are in
  descending order, and for every score the output records carrying that score are the
  scored copies of the input rows with that score, in the order of the input (ties keep
  their input order). The function takes the rows and the criteria only, so no sort asked
  for by a caller can change this order. It returns exactly when \<open>score_dog\<close> returns for
  every row.
\<close>

theorem rank_results_sorted_stable:
  "(rank_results rows c = Inr out \<longrightarrow>
      (\<exists>ns. map match_score out = map Some ns \<and> sorted_wrt (\<lambda>a b. b \<le> a) ns) \<and>
      (\<exists>ss. list_all2 (\<lambda>r s. score_dog r c = Inr s) rows ss \<and>
         (\<forall>k. filter (\<lambda>r. match_score r = Some k) out =
              map (\<lambda>(r, s). scored_record r s)
                (filter (\<lambda>(r, s). total_score s = k) (zip rows ss))))) \<and>
   ((\<exists>out. rank_results rows c = Inr out) \<longleftrightarrow>
      (\<forall>r \<in> set rows. \<exists>s. score_dog r c = Inr s))"
proof (intro conjI impI)
  assume "rank_results rows c = Inr out"
  then obtain ss where ss: "list_all2 (\<lambda>r s. score_dog r c = Inr s) rows ss"
    and out: "out = map snd (list_sort fst True
           (map (\<lambda>(r, s). (total_score s, scored_record r s)) (zip rows ss)))"
    by (rule rank_results_Inr)
  let ?ps = "map (\<lambda>(r, s). (total_score s, scored_record r s)) (zip rows ss)"
  let ?sorted = "list_sort fst True ?ps"
  have keyed: "\<forall>p \<in> set ?sorted. match_score (snd p) = Some (fst p)"
    unfolding set_list_sort by (rule pairs_keyed)
  have "map match_score out = map Some (map fst ?sorted)"
    unfolding out by (rule map_match_score_keyed [OF keyed])
  moreover have "sorted_wrt (\<lambda>a b. b \<le> a) (map fst ?sorted)"
    by (rule list_sort_reverse_sorted)
  ultimately show "\<exists>ns. map match_score out = map Some ns \<and> sorted_wrt (\<lambda>a b. b \<le> a) ns"
    by blast
  have "filter (\<lambda>r. match_score r = Some k) out =
      map (\<lambda>(r, s). scored_record r s) (filter (\<lambda>(r, s). total_score s = k) (zip rows ss))"
    for k
  proof -
    have "filter (\<lambda>r. match_score r = Some k) out = map snd (filter (\<lambda>p. fst p = k) ?sorted)"
      unfolding out by (rule filter_map_snd_keyed [OF keyed])
    also have "\<dots> = map snd (filter (\<lambda>p. fst p = k) ?ps)"
      by (simp only: list_sort_reverse_stable)
    also have "\<dots> = map (\<lambda>(r, s). scored_record r s)
        (filter (\<lambda>(r, s). total_score s = k) (zip rows ss))"
      by (simp add: filter_map comp_def case_prod_unfold)
    finally show ?thesis .
  qed
  with ss show "\<exists>ss. list_all2 (\<lambda>r s. score_dog r c = Inr s) rows ss \<and>
         (\<forall>k. filter (\<lambda>r. match_score r = Some k) out =
              map (\<lambda>(r, s). scored_record r s)
                (filter (\<lambda>(r, s). total_score s = k) (zip rows ss)))"
    by blast
next
  show "(\<exists>out. rank_results rows c = Inr out) \<longleftrightarrow>
      (\<forall>r \<in> set rows. \<exists>s. score_dog r c = Inr s)"
    by (rule rank_results_returns)
qed


theorem rank_results_sorted_stable_witness:
  "rank_results
     [[''breed'' \<mapsto> PStr ''Terrier Mix'', ''age_upon_outcome_in_weeks'' \<mapsto> PInt 50,
       ''sex_upon_outcome'' \<mapsto> PStr ''Intact Male''],
      [''breed'' \<mapsto> PStr ''Labrador Retriever Mix'', ''age_upon_outcome_in_weeks'' \<mapsto> PInt 52,
       ''sex_upon_outcome'' \<mapsto> PStr ''Intact Female''],
      [''breed'' \<mapsto> PStr ''Poodle'', ''age_upon_outcome_in_weeks'' \<mapsto> PInt 50,
       ''sex_upon_outcome'' \<mapsto> PStr ''Intact Male'']]
     (criteria_for_filter ''water'')
   = Inr
     [scored_record
        [''breed'' \<mapsto> PStr ''Labrador Retriever Mix'', ''age_upon_outcome_in_weeks'' \<mapsto> PInt 52,
         ''sex_upon_outcome'' \<mapsto> PStr ''Intact Female'']
        \<lparr>breed_match = 50, age_match = 30, sex_match = 20, total_score = 100\<rparr>,
      scored_record
        [''breed'' \<mapsto> PStr ''Terrier Mix'', ''age_upon_outcome_in_weeks'' \<mapsto> PInt 50,
         ''sex_upon_outcome'' \<mapsto> PStr ''Intact Male'']
        \<lparr>breed_match = 0, age_match = 30, sex_match = 0, total_score = 30\<rparr>,
      scored_record
        [''breed'' \<mapsto> PStr ''Poodle'', ''age_upon_outcome_in_weeks'' \<mapsto> PInt 50,
         ''sex_upon_outcome'' \<mapsto> PStr ''Intact Male'']
        \<lparr>breed_match = 0, age_match = 30, sex_match = 0, total_score = 30\<rparr>] \<and>
   (\<exists>ns. map match_score
       [scored_record
        [''breed'' \<mapsto> PStr ''Labrador Retriever Mix'', ''age_upon_outcome_in_weeks'' \<mapsto> PInt 52,
         ''sex_upon_outcome'' \<mapsto> PStr ''Intact Female'']
        \<lparr>breed_match = 50, age_match = 30, sex_match = 20, total_score = 100\<rparr>,
      scored_record
        [''breed'' \<mapsto> PStr ''Terrier Mix'', ''age_upon_outcome_in_weeks'' \<mapsto> PInt 50,
         ''sex_upon_outcome'' \<mapsto> PStr ''Intact Male'']
        \<lparr>breed_match = 0, age_match = 30, sex_match = 0, total_score = 30\<rparr>,
      scored_record
        [''breed'' \<mapsto> PStr ''Poodle'', ''age_upon_outcome_in_weeks'' \<mapsto> PInt 50,
         ''sex_upon_outcome'' \<mapsto> PStr ''Intact Male'']
        \<lparr>breed_match = 0, age_match = 30, sex_match = 0, total_score = 30\<rparr>]
      = map Some ns \<and> sorted_wrt (\<lambda>a b. b \<le> a) ns)"
  (is "rank_results ?rows ?c = Inr ?out \<and> ?sorted")
proof -
  have run: "rank_results ?rows ?c = Inr ?out"
    by (simp add: rank_results_def list_sort_def score_defs criteria_for_filter_def)
  from rank_results_sorted_stable [of ?rows ?c ?out, THEN conjunct1, THEN mp, OF run]
  have ?sorted by (rule conjunct1)
  with run show ?thesis by (rule conjI)
qed




section \<open>Sanitizing records\<close>

lemma bit_length_bounds: "0 < n \<Longrightarrow> 2 ^ (bit_length n - 1) \<le> n \<and> n < 2 ^ bit_length n"
proof (induction n rule: bit_length.induct)
  case (1 n)
  show ?case
  proof (cases "n div 2 = 0")
    case True
    with "1.prems" have n: "n = 1" by (simp add: div_eq_0_iff)
    have "bit_length 1 = 1"
      by (simp add: bit_length.simps [of "Suc 0"] bit_length.simps [of 0])
    then show ?thesis by (simp add: n)
  next
    case False
    then have pos: "0 < n div 2" by simp
    from "1.IH" [OF _ pos] "1.prems"
    have lo: "2 ^ (bit_length (n div 2) - 1) \<le> n div 2"
      and hi: "n div 2 < 2 ^ bit_length (n div 2)" by simp_all
    have k: "0 < bit_length (n div 2)" using pos by (subst bit_length.simps) simp
    have bl: "bit_length n = Suc (bit_length (n div 2))"
      using "1.prems" by (subst bit_length.simps) simp
    have "2 ^ (bit_length n - 1) = 2 * 2 ^ (bit_length (n div 2) - 1)"
      using k by (simp add: bl flip: power_Suc)
    also have "\<dots> \<le> 2 * (n div 2)" using lo by simp
    also have "\<dots> \<le> n" by simp
    finally have A: "2 ^ (bit_length n - 1) \<le> n" .
    have "n < 2 * (n div 2) + 2" by presburger
    also have "\<dots> \<le> 2 * 2 ^ bit_length (n div 2)" using hi by simp
    finally have B: "n < 2 ^ bit_length n" by (simp add: bl)
    from A B show ?thesis ..
  qed
qed

lemma round_half_even_ge_power:
  assumes e: "53 \<le> e" and big: "2 ^ e \<le> n"
  shows "2 ^ e \<le> round_half_even n"
proof -
  let ?k = "bit_length n"
  have "(0::nat) < 2 ^ e" by simp
  then have pos: "0 < n" using big by (rule less_le_trans)
  from bit_length_bounds [OF pos]
  have lo: "2 ^ (?k - 1) \<le> n" and hi: "n < 2 ^ ?k" by simp_all
  have "(2::nat) ^ e < 2 ^ ?k" using big hi by (rule le_less_trans)
  then have k: "e < ?k" by (rule power_less_imp_less_exp [rotated]) simp
  define shift where "shift = ?k - 53"
  define q where "q = n div 2 ^ shift"
  define q' where "q' = (if 2 ^ (shift - 1) < n mod 2 ^ shift \<or>
      (n mod 2 ^ shift = 2 ^ (shift - 1) \<and> odd q) then q + 1 else q)"
  have r: "round_half_even n = q' * 2 ^ shift"
    using k e by (simp add: round_half_even_def Let_def shift_def q_def q'_def)
  have split: "?k - 1 = 52 + shift" using k e by (simp add: shift_def)
  have "(2::nat) ^ 52 * 2 ^ shift \<le> n" using lo unfolding split power_add .
  then have "2 ^ 52 \<le> q"
    unfolding q_def by (simp add: less_eq_div_iff_mult_less_eq)
  moreover have "q \<le> q'" by (simp add: q'_def)
  ultimately have "2 ^ 52 \<le> q'" by (rule order_trans)
  then have "(2::nat) ^ 52 * 2 ^ shift \<le> q' * 2 ^ shift" by (rule mult_le_mono1)
  then have "(2::nat) ^ (?k - 1) \<le> q' * 2 ^ shift" unfolding split power_add .
  moreover have "(2::nat) ^ e \<le> 2 ^ (?k - 1)"
    using k by (intro power_increasing) simp_all
  ultimately show ?thesis unfolding r by (rule order_trans [rotated])
qed

lemma int_to_float_overflow:
  assumes "2 ^ 1024 \<le> \<bar>i\<bar>"
  shows "int_to_float i = Inl OverflowError"
proof -
  have "int (2 ^ 1024) \<le> \<bar>i\<bar>" using assms by (simp only: of_nat_power of_nat_numeral)
  then have "2 ^ 1024 \<le> nat \<bar>i\<bar>" by (simp only: le_nat_iff)
  then have "2 ^ 1024 \<le> round_half_even (nat \<bar>i\<bar>)"
    by (rule round_half_even_ge_power [rotated]) simp
  then show ?thesis unfolding int_to_float_def Let_def by (rule if_P)
qed

lemmas sanitize_defs = sanitize_record_def REQUIRED_FIELDS_def OPTIONAL_FIELDS_WITH_DEFAULTS_def
  setdefault_def dict_get_def Let_def

lemma sanitize_record_raises:
  "int_to_float i = Inl OverflowError \<Longrightarrow>
   sanitize_record str_to_float [''age_upon_outcome_in_weeks'' \<mapsto> PInt i] = Inl OverflowError"
  by (simp add: sanitize_defs)

text \<open>
  C7. The claim says that \<open>sanitize_record\<close> never raises and turns every age it cannot
  convert into \<open>None\<close>. On a record whose age is the integer \<open>10 ^ 400\<close> the conversion
  \<open>float(age)\<close> raises \<open>OverflowError\<close>, which the \<open>except (TypeError, ValueError)\<close> clause
  does not catch: the call raises, whatever the string parser is.
\<close>

theorem sanitize_record_overflow:
  "sanitize_record str_to_float [''age_upon_outcome_in_weeks'' \<mapsto> PInt (10 ^ 400)]
     = Inl OverflowError"
proof -
  have "(2::int) ^ 1024 \<le> \<bar>10 ^ 400\<bar>" by simp
  then have "int_to_float (10 ^ 400) = Inl OverflowError" by (rule int_to_float_overflow)
  then show ?thesis by (rule sanitize_record_raises)
qed


lemma setdefault_same: "setdefault d k v k = Some (case d k of None \<Rightarrow> v | Some x \<Rightarrow> x)"
  by (simp add: setdefault_def split: option.splits)

lemma setdefault_other: "k' \<noteq> k \<Longrightarrow> setdefault d k v k' = d k'"
  by (simp add: setdefault_def split: option.splits)

lemma setdefault_present: "d k \<noteq> None \<Longrightarrow> setdefault d k v = d"
  by (auto simp add: setdefault_def split: option.splits)

text \<open>The record after the \<open>pop\<close> and the \<open>setdefault\<close> calls, before the age is coerced.\<close>

lemma sanitize_record_prepared:
  "\<exists>out.
     out ''_id'' = None \<and>
     out ''breed'' = Some (case r ''breed'' of None \<Rightarrow> PNone | Some x \<Rightarrow> x) \<and>
     out ''sex_upon_outcome'' = Some (case r ''sex_upon_outcome'' of None \<Rightarrow> PNone | Some x \<Rightarrow> x) \<and>
     out ''age_upon_outcome_in_weeks'' =
       Some (case r ''age_upon_outcome_in_weeks'' of None \<Rightarrow> PNone | Some x \<Rightarrow> x) \<and>
     out ''name'' = Some (case r ''name'' of None \<Rightarrow> PStr [] | Some x \<Rightarrow> x) \<and>
     out ''location_lat'' = Some (case r ''location_lat'' of None \<Rightarrow> PNone | Some x \<Rightarrow> x) \<and>
     out ''location_long'' = Some (case r ''location_long'' of None \<Rightarrow> PNone | Some x \<Rightarrow> x) \<and>
     (\<forall>k. k \<notin> {''_id'', ''breed'', ''sex_upon_outcome'', ''age_upon_outcome_in_weeks'', ''name'',
              ''location_lat'', ''location_long''} \<longrightarrow> out k = r k) \<and>
     sanitize_record str_to_float r =
       (let age = dict_get out ''age_upon_outcome_in_weeks'' in
        if age = PNone then Inr (out(''age_upon_outcome_in_weeks'' \<mapsto> PNone))
        else
          (case py_float str_to_float age of
             Inr f \<Rightarrow> Inr (out(''age_upon_outcome_in_weeks'' \<mapsto> PFloat f))
           | Inl e \<Rightarrow>
               if e = TypeError \<or> e = ValueError
               then Inr (out(''age_upon_outcome_in_weeks'' \<mapsto> PNone))
               else Inl e))"
proof -
  define out where "out =
    fold (\<lambda>(k, default) d. setdefault d k default) OPTIONAL_FIELDS_WITH_DEFAULTS
      (fold (\<lambda>k d. setdefault d k PNone) REQUIRED_FIELDS (r(''_id'' := None)))"
  have run: "sanitize_record str_to_float r =
       (let age = dict_get out ''age_upon_outcome_in_weeks'' in
        if age = PNone then Inr (out(''age_upon_outcome_in_weeks'' \<mapsto> PNone))
        else
          (case py_float str_to_float age of
             Inr f \<Rightarrow> Inr (out(''age_upon_outcome_in_weeks'' \<mapsto> PFloat f))
           | Inl e \<Rightarrow>
               if e = TypeError \<or> e = ValueError
               then Inr (out(''age_upon_outcome_in_weeks'' \<mapsto> PNone))
               else Inl e))"
    unfolding sanitize_record_def out_def Let_def by (rule refl)
  have unfolded: "out =
    setdefault (setdefault (setdefault (setdefault (setdefault (setdefault (r(''_id'' := None))
      ''breed'' PNone) ''sex_upon_outcome'' PNone) ''age_upon_outcome_in_weeks'' PNone)
      ''name'' (PStr [])) ''location_lat'' PNone) ''location_long'' PNone"
    by (simp add: out_def REQUIRED_FIELDS_def OPTIONAL_FIELDS_WITH_DEFAULTS_def)
  have "out ''_id'' = None"
    by (simp add: unfolded setdefault_other)
  moreover have "out ''breed'' = Some (case r ''breed'' of None \<Rightarrow> PNone | Some x \<Rightarrow> x)"
    by (simp add: unfolded setdefault_other setdefault_same)
  moreover have "out ''sex_upon_outcome'' =
      Some (case r ''sex_upon_outcome'' of None \<Rightarrow> PNone | Some x \<Rightarrow> x)"
    by (simp add: unfolded setdefault_other setdefault_same)
  moreover have "out ''age_upon_outcome_in_weeks'' =
      Some (case r ''age_upon_outcome_in_weeks'' of None \<Rightarrow> PNone | Some x \<Rightarrow> x)"
    by (simp add: unfolded setdefault_other setdefault_same)
  moreover have "out ''name'' = Some (case r ''name'' of None \<Rightarrow> PStr [] | Some x \<Rightarrow> x)"
    by (simp add: unfolded setdefault_other setdefault_same)
  moreover have "out ''location_lat'' =
      Some (case r ''location_lat'' of None \<Rightarrow> PNone | Some x \<Rightarrow> x)"
    by (simp add: unfolded setdefault_other setdefault_same)
  moreover have "out ''location_long'' =
      Some (case r ''location_long'' of None \<Rightarrow> PNone | Some x \<Rightarrow> x)"
    by (simp add: unfolded setdefault_other setdefault_same)
  moreover have "\<forall>k. k \<notin> {''_id'', ''breed'', ''sex_upon_outcome'', ''age_upon_outcome_in_weeks'',
      ''name'', ''location_lat'', ''location_long''} \<longrightarrow> out k = r k"
    by (simp add: unfolded setdefault_other)
  ultimately show ?thesis using run by blast
qed


lemma sanitize_record_fixed:
  assumes id: "m ''_id'' = None"
    and present: "m ''breed'' \<noteq> None" "m ''sex_upon_outcome'' \<noteq> None" "m ''name'' \<noteq> None"
      "m ''location_lat'' \<noteq> None" "m ''location_long'' \<noteq> None"
    and age: "m ''age_upon_outcome_in_weeks'' = Some PNone \<or>
      (\<exists>f. m ''age_upon_outcome_in_weeks'' = Some (PFloat f))"
  shows "sanitize_record str_to_float m = Inr m"
  using sanitize_record_prepared [of m str_to_float]
proof (elim exE conjE)
  fix out
  assume o1: "out ''_id'' = None"
    and o2: "out ''breed'' = Some (case m ''breed'' of None \<Rightarrow> PNone | Some x \<Rightarrow> x)"
    and o3: "out ''sex_upon_outcome'' =
        Some (case m ''sex_upon_outcome'' of None \<Rightarrow> PNone | Some x \<Rightarrow> x)"
    and o4: "out ''age_upon_outcome_in_weeks'' =
        Some (case m ''age_upon_outcome_in_weeks'' of None \<Rightarrow> PNone | Some x \<Rightarrow> x)"
    and o5: "out ''name'' = Some (case m ''name'' of None \<Rightarrow> PStr [] | Some x \<Rightarrow> x)"
    and o6: "out ''location_lat'' = Some (case m ''location_lat'' of None \<Rightarrow> PNone | Some x \<Rightarrow> x)"
    and o7: "out ''location_long'' =
        Some (case m ''location_long'' of None \<Rightarrow> PNone | Some x \<Rightarrow> x)"
    and rest: "\<forall>k. k \<notin> {''_id'', ''breed'', ''sex_upon_outcome'', ''age_upon_outcome_in_weeks'',
        ''name'', ''location_lat'', ''location_long''} \<longrightarrow> out k = m k"
    and run: "sanitize_record str_to_float m =
       (let age = dict_get out ''age_upon_outcome_in_weeks'' in
        if age = PNone then Inr (out(''age_upon_outcome_in_weeks'' \<mapsto> PNone))
        else
          (case py_float str_to_float age of
             Inr f \<Rightarrow> Inr (out(''age_upon_outcome_in_weeks'' \<mapsto> PFloat f))
           | Inl e \<Rightarrow>
               if e = TypeError \<or> e = ValueError
               then Inr (out(''age_upon_outcome_in_weeks'' \<mapsto> PNone))
               else Inl e))"
  have m_age: "m ''age_upon_outcome_in_weeks'' \<noteq> None" using age by auto
  have "out k = m k" for k
  proof -
    consider "k = ''_id''" | "k = ''breed''" | "k = ''sex_upon_outcome''"
      | "k = ''age_upon_outcome_in_weeks''" | "k = ''name''" | "k = ''location_lat''"
      | "k = ''location_long''"
      | "k \<notin> {''_id'', ''breed'', ''sex_upon_outcome'', ''age_upon_outcome_in_weeks'',
        ''name'', ''location_lat'', ''location_long''}"
      by auto
    then show ?thesis
    proof cases
      case 1 then show ?thesis using o1 id by simp
    next
      case 2 then show ?thesis using o2 present(1) by (simp split: option.splits)
    next
      case 3 then show ?thesis using o3 present(2) by (simp split: option.splits)
    next
      case 4 then show ?thesis using o4 m_age by (simp split: option.splits)
    next
      case 5 then show ?thesis using o5 present(3) by (simp split: option.splits)
    next
      case 6 then show ?thesis using o6 present(4) by (simp split: option.splits)
    next
      case 7 then show ?thesis using o7 present(5) by (simp split: option.splits)
    next
      case 8
      from rest have "k \<notin> {''_id'', ''breed'', ''sex_upon_outcome'',
          ''age_upon_outcome_in_weeks'', ''name'', ''location_lat'', ''location_long''}
          \<longrightarrow> out k = m k" by (rule spec)
      then show ?thesis using 8 by (rule mp)
    qed
  qed
  then have same: "out = m" by (rule ext)
  from age show "sanitize_record str_to_float m = Inr m"
  proof
    assume a: "m ''age_upon_outcome_in_weeks'' = Some PNone"
    then have "m(''age_upon_outcome_in_weeks'' \<mapsto> PNone) = m" by (rule fun_upd_idem)
    then show ?thesis using a by (simp add: run same dict_get_def)
  next
    assume "\<exists>f. m ''age_upon_outcome_in_weeks'' = Some (PFloat f)"
    then obtain f where a: "m ''age_upon_outcome_in_weeks'' = Some (PFloat f)" ..
    then have "m(''age_upon_outcome_in_weeks'' \<mapsto> PFloat f) = m" by (rule fun_upd_idem)
    then show ?thesis using a by (simp add: run same dict_get_def)
  qed
qed

lemma sanitize_record_result:
  assumes ret: "sanitize_record str_to_float r = Inr r'"
  shows "r' ''_id'' = None \<and> r' ''breed'' \<noteq> None \<and> r' ''sex_upon_outcome'' \<noteq> None \<and>
    r' ''name'' \<noteq> None \<and> r' ''location_lat'' \<noteq> None \<and> r' ''location_long'' \<noteq> None \<and>
    (r' ''age_upon_outcome_in_weeks'' = Some PNone \<or>
     (\<exists>f. r' ''age_upon_outcome_in_weeks'' = Some (PFloat f)))"
  using sanitize_record_prepared [of r str_to_float]
proof (elim exE conjE)
  fix out
  assume o1: "out ''_id'' = None"
    and o2: "out ''breed'' = Some (case r ''breed'' of None \<Rightarrow> PNone | Some x \<Rightarrow> x)"
    and o3: "out ''sex_upon_outcome'' =
        Some (case r ''sex_upon_outcome'' of None \<Rightarrow> PNone | Some x \<Rightarrow> x)"
    and o5: "out ''name'' = Some (case r ''name'' of None \<Rightarrow> PStr [] | Some x \<Rightarrow> x)"
    and o6: "out ''location_lat'' = Some (case r ''location_lat'' of None \<Rightarrow> PNone | Some x \<Rightarrow> x)"
    and o7: "out ''location_long'' =
        Some (case r ''location_long'' of None \<Rightarrow> PNone | Some x \<Rightarrow> x)"
    and run: "sanitize_record str_to_float r =
       (let age = dict_get out ''age_upon_outcome_in_weeks'' in
        if age = PNone then Inr (out(''age_upon_outcome_in_weeks'' \<mapsto> PNone))
        else
          (case py_float str_to_float age of
             Inr f \<Rightarrow> Inr (out(''age_upon_outcome_in_weeks'' \<mapsto> PFloat f))
           | Inl e \<Rightarrow>
               if e = TypeError \<or> e = ValueError
               then Inr (out(''age_upon_outcome_in_weeks'' \<mapsto> PNone))
               else Inl e))"
  from ret run have "r' = out(''age_upon_outcome_in_weeks'' \<mapsto> PNone) \<or>
      (\<exists>f. r' = out(''age_upon_outcome_in_weeks'' \<mapsto> PFloat f))"
    by (auto simp add: Let_def split: if_splits sum.splits)
  then show ?thesis
  proof
    assume "r' = out(''age_upon_outcome_in_weeks'' \<mapsto> PNone)"
    then show ?thesis by (simp add: o1 o2 o3 o5 o6 o7)
  next
    assume "\<exists>f. r' = out(''age_upon_outcome_in_weeks'' \<mapsto> PFloat f)"
    then obtain f where "r' = out(''age_upon_outcome_in_weeks'' \<mapsto> PFloat f)" ..
    then show ?thesis by (simp add: o1 o2 o3 o5 o6 o7)
  qed
qed

text \<open>
  C8. \<open>sanitize_record\<close> is idempotent: when it returns a record, sanitizing that record
  again returns the same record, field for field; put as one equation, sanitizing twice
  (the exception of the first call, if any, passing through) is sanitizing once.
\<close>

theorem sanitize_record_idempotent:
  "(sanitize_record str_to_float r = Inr r' \<longrightarrow> sanitize_record str_to_float r' = Inr r') \<and>
   (case sanitize_record str_to_float r of
      Inl e \<Rightarrow> Inl e
    | Inr r' \<Rightarrow> sanitize_record str_to_float r') = sanitize_record str_to_float r"
proof -
  have once: "sanitize_record str_to_float y = Inr y"
    if "sanitize_record str_to_float x = Inr y" for x y
    using sanitize_record_result [OF that] by (intro sanitize_record_fixed) simp_all
  show ?thesis
  proof (cases "sanitize_record str_to_float r")
    case (Inl e)
    then show ?thesis by simp
  next
    case (Inr y)
    with once [OF Inr] show ?thesis by auto
  qed
qed


theorem sanitize_record_idempotent_witness:
  "sanitize_record (\<lambda>s. if s = ''12'' then Some (Finite 12) else None)
     [''_id'' \<mapsto> PInt 7, ''breed'' \<mapsto> PStr ''X'', ''age_upon_outcome_in_weeks'' \<mapsto> PStr ''12'']
   = Inr [''breed'' \<mapsto> PStr ''X'', ''sex_upon_outcome'' \<mapsto> PNone,
          ''age_upon_outcome_in_weeks'' \<mapsto> PFloat (Finite 12), ''name'' \<mapsto> PStr [],
          ''location_lat'' \<mapsto> PNone, ''location_long'' \<mapsto> PNone] \<and>
   sanitize_record (\<lambda>s. if s = ''12'' then Some (Finite 12) else None)
     [''breed'' \<mapsto> PStr ''X'', ''sex_upon_outcome'' \<mapsto> PNone,
      ''age_upon_outcome_in_weeks'' \<mapsto> PFloat (Finite 12), ''name'' \<mapsto> PStr [],
      ''location_lat'' \<mapsto> PNone, ''location_long'' \<mapsto> PNone]
   = Inr [''breed'' \<mapsto> PStr ''X'', ''sex_upon_outcome'' \<mapsto> PNone,
          ''age_upon_outcome_in_weeks'' \<mapsto> PFloat (Finite 12), ''name'' \<mapsto> PStr [],
          ''location_lat'' \<mapsto> PNone, ''location_long'' \<mapsto> PNone]"
  (is "sanitize_record ?sf ?r = Inr ?r' \<and> sanitize_record ?sf ?r' = Inr ?r'")
proof -
  have run: "sanitize_record ?sf ?r = Inr ?r'"
    by (simp add: sanitize_defs fun_eq_iff)
  from sanitize_record_idempotent [of ?sf ?r ?r', THEN conjunct1, THEN mp, OF run]
  have "sanitize_record ?sf ?r' = Inr ?r'" .
  with run show ?thesis by (rule conjI)
qed

text \<open>The only exception that leaves \<open>sanitize_record\<close> is the overflow of an integer age.\<close>

lemma sanitize_record_raises_iff:
  "(\<exists>e. sanitize_record str_to_float r = Inl e) \<longleftrightarrow>
     (\<exists>i. r ''age_upon_outcome_in_weeks'' = Some (PInt i) \<and> int_to_float i = Inl OverflowError)"
  using sanitize_record_prepared [of r str_to_float]
proof (elim exE conjE)
  fix out
  assume o4: "out ''age_upon_outcome_in_weeks'' =
        Some (case r ''age_upon_outcome_in_weeks'' of None \<Rightarrow> PNone | Some x \<Rightarrow> x)"
    and run: "sanitize_record str_to_float r =
       (let age = dict_get out ''age_upon_outcome_in_weeks'' in
        if age = PNone then Inr (out(''age_upon_outcome_in_weeks'' \<mapsto> PNone))
        else
          (case py_float str_to_float age of
             Inr f \<Rightarrow> Inr (out(''age_upon_outcome_in_weeks'' \<mapsto> PFloat f))
           | Inl e \<Rightarrow>
               if e = TypeError \<or> e = ValueError
               then Inr (out(''age_upon_outcome_in_weeks'' \<mapsto> PNone))
               else Inl e))"
  have float_err: "py_float str_to_float v = Inl e \<Longrightarrow> e \<noteq> TypeError \<Longrightarrow> e \<noteq> ValueError \<Longrightarrow>
      \<exists>i. v = PInt i \<and> int_to_float i = Inl OverflowError" for v e
    by (cases v) (auto simp add: int_to_float_def Let_def split: option.splits if_splits)
  show ?thesis
  proof (cases "r ''age_upon_outcome_in_weeks''")
    case None
    then show ?thesis using o4 by (simp add: run dict_get_def)
  next
    case (Some v)
    then have age: "dict_get out ''age_upon_outcome_in_weeks'' = v"
      using o4 by (simp add: dict_get_def)
    show ?thesis
    proof (cases v)
      case (PInt i)
      then show ?thesis
        using Some by (auto simp add: run age int_to_float_def Let_def split: sum.splits)
    qed (use Some in \<open>auto simp add: run age split: option.splits\<close>)
  qed
qed

text \<open>
  What \<open>sanitize_record\<close> leaves in the age field when it returns: \<open>None\<close> for a missing or
  \<open>None\<close> age and for a value \<open>float\<close> rejects, the converted float otherwise.
\<close>

lemma sanitize_record_age:
  assumes "sanitize_record str_to_float r = Inr r'"
  shows "r' ''age_upon_outcome_in_weeks'' =
     Some (case r ''age_upon_outcome_in_weeks'' of
             None \<Rightarrow> PNone
           | Some v \<Rightarrow>
               (case py_float str_to_float v of Inr f \<Rightarrow> PFloat f | Inl e \<Rightarrow> PNone))"
  using sanitize_record_prepared [of r str_to_float]
proof (elim exE conjE)
  fix out
  assume o4: "out ''age_upon_outcome_in_weeks'' =
        Some (case r ''age_upon_outcome_in_weeks'' of None \<Rightarrow> PNone | Some x \<Rightarrow> x)"
    and run: "sanitize_record str_to_float r =
       (let age = dict_get out ''age_upon_outcome_in_weeks'' in
        if age = PNone then Inr (out(''age_upon_outcome_in_weeks'' \<mapsto> PNone))
        else
          (case py_float str_to_float age of
             Inr f \<Rightarrow> Inr (out(''age_upon_outcome_in_weeks'' \<mapsto> PFloat f))
           | Inl e \<Rightarrow>
               if e = TypeError \<or> e = ValueError
               then Inr (out(''age_upon_outcome_in_weeks'' \<mapsto> PNone))
               else Inl e))"
  show ?thesis
  proof (cases "r ''age_upon_outcome_in_weeks''")
    case None
    then show ?thesis using o4 assms by (auto simp add: run dict_get_def)
  next
    case (Some v)
    then have age: "dict_get out ''age_upon_outcome_in_weeks'' = v"
      using o4 by (simp add: dict_get_def)
    show ?thesis
      using assms Some
      by (cases "v = PNone") (auto simp add: run age split: sum.splits if_splits)
  qed
qed

text \<open>
  The two examples of the test suite, for a parser that reads \<open>12\<close> as 12.0 and rejects
  \<open>bad\<close>.
\<close>

lemma sanitize_record_examples:
  assumes "str_to_float ''12'' = Some (Finite 12)" and "str_to_float ''bad'' = None"
  shows "\<exists>r'. sanitize_record str_to_float [''age_upon_outcome_in_weeks'' \<mapsto> PStr ''12'']
             = Inr r' \<and> r' ''age_upon_outcome_in_weeks'' = Some (PFloat (Finite 12))"
    and "\<exists>r'. sanitize_record str_to_float [''age_upon_outcome_in_weeks'' \<mapsto> PStr ''bad'']
             = Inr r' \<and> r' ''age_upon_outcome_in_weeks'' = Some PNone"
  using assms by (simp_all add: sanitize_defs)

end
